theory Spec2Isabelle
  imports Main
begin

section \<open>Data model\<close>

text \<open>
  The constructor arguments of \<^verbatim>\<open>DataFetcher\<close>, stored on the object and never assigned
  again: \<^verbatim>\<open>csv_path\<close>, \<^verbatim>\<open>has_header\<close>, \<^verbatim>\<open>target_name\<close> and \<^verbatim>\<open>id_column\<close>.  The two
  column names are \<^verbatim>\<open>Optional[str]\<close>.
\<close>

record config =
  csv_path :: string
  has_header :: bool
  target_name :: "string option"
  id_column :: "string option"

text \<open>
  A column label of a pandas frame: a string read from the header row, or the integer
  position that the reader assigns when it is called with \<^verbatim>\<open>header=None\<close>.  A Python
  string never equals a Python integer, so the two constructors are distinct labels.
\<close>

datatype label = StrLabel string | IntLabel nat

text \<open>
  A pandas \<^verbatim>\<open>DataFrame\<close>, column by column as pandas stores it: the row index and the
  labelled columns in their order.  \<^verbatim>\<open>len(df)\<close> is the length of the index, so a frame
  without columns still has its rows.  A \<^verbatim>\<open>Series\<close> is one named column over an index.
\<close>

record 'v frame =
  frame_index :: "nat list"
  frame_cols :: "(label \<times> 'v list) list"

record 'v series =
  series_index :: "nat list"
  series_name :: label
  series_values :: "'v list"

text \<open>The second component of the result is a \<^verbatim>\<open>Series\<close> or a \<^verbatim>\<open>DataFrame\<close>.\<close>

datatype 'v target = TargetSeries "'v series" | TargetFrame "'v frame"

text \<open>
  Exceptions are values.  \<^verbatim>\<open>ValueError\<close> carries its message.  A \<^verbatim>\<open>KeyError\<close> carries the
  values interpolated into its message: line 84 of the source formats
  \<^verbatim>\<open>Columns not found in CSV: {missing}. Available: {list(df.columns)}\<close>; the other three
  are the messages of pandas when a label is looked up and not found.  \<^verbatim>\<open>OtherError\<close> is
  any other exception class that the reader raises, by its name.
\<close>

datatype key_message =
    Columns_not_found "string list" "label list"
  | Not_found_in_axis "label list"
  | Not_in_index "label list"
  | Key_missing label

datatype exn =
    FileNotFoundError
  | OtherError string
  | ValueError string
  | KeyError key_message

text \<open>
  What the outside can observe: the records handed to the logger, with their level and
  the values interpolated into the message, and the call of \<^verbatim>\<open>pd.read_csv\<close> with its
  path and its \<^verbatim>\<open>header\<close> argument.  \<^verbatim>\<open>logger.exception\<close> logs at level ERROR.
\<close>

datatype level = INFO | ERROR

datatype message =
    Reading_CSV_file_from string
  | Loaded_DataFrame nat nat
  | CSV_file_not_found string
  | Unexpected_error_reading_CSV_file exn
  | Target_column_not_specified
  | Missing_columns_in_CSV "string list"
  | Features_shape "nat \<times> nat"
  | Target_shape "nat list"

datatype event = Log level message | Read_csv string "nat option"

text \<open>
  The file system and the pandas parser are not part of the repository.  The world is a
  parameter.  \<open>file_exists\<close> says which paths name an existing file; the source never
  asks it, and it serves to state properties only.  \<open>read_rows\<close> is the outcome of
  opening, decoding and tokenising a path: the exception raised (\<^verbatim>\<open>FileNotFoundError\<close>,
  \<^verbatim>\<open>NotADirectoryError\<close>, \<^verbatim>\<open>PermissionError\<close>, a decoding or tokenising error, \<dots>), or the
  rows of the file, each the texts of its fields.  \<open>infer_column\<close> is what the parser
  makes of the field texts of one column (its inference of the values' type).
  \<open>read_irregular\<close> is what the parser makes of rows that the spec does not speak of:
  no row at all, a row longer than the one that fixes the columns, an empty or a
  repeated name in the header row.
\<close>

record 'v world =
  file_exists :: "string \<Rightarrow> bool"
  read_rows :: "string \<Rightarrow> exn + string list list"
  infer_column :: "string list \<Rightarrow> 'v list"
  read_irregular :: "string \<Rightarrow> nat option \<Rightarrow> exn + 'v frame"

section \<open>The pandas operations that the source calls\<close>

text \<open>
  Column \<open>j\<close> of some rows.  A row that ends before field \<open>j\<close> has an empty field
  there, which is how the reader pads a short row.
\<close>

definition field_at :: "nat \<Rightarrow> string list \<Rightarrow> string" where
  "field_at j r = (if j < length r then r ! j else [])"

definition column_of :: "nat \<Rightarrow> string list list \<Rightarrow> string list" where
  "column_of j rows = map (field_at j) rows"

text \<open>
  Modelled from the spec: the parser behind \<^verbatim>\<open>pd.read_csv\<close> is a library outside the
  repository.  The spec's header handling: when the header flag is false
  (\<^verbatim>\<open>header=None\<close>) the columns are assigned positional names and all rows, the first
  included, are data; when it is true (\<^verbatim>\<open>header=0\<close>) the first row supplies the column
  names and the rows after it are the data.  The index of the table numbers the rows of
  data, and the number of columns is the number of fields of the first row.
\<close>

definition positional_frame :: "(string list \<Rightarrow> 'v list) \<Rightarrow> string list list \<Rightarrow> 'v frame" where
  "positional_frame infer rows =
     \<lparr>frame_index = [0..<length rows],
      frame_cols = map (\<lambda>j. (IntLabel j, infer (column_of j rows)))
                     [0..<(case rows of [] \<Rightarrow> 0 | first # _ \<Rightarrow> length first)]\<rparr>"

definition named_frame ::
  "(string list \<Rightarrow> 'v list) \<Rightarrow> string list \<Rightarrow> string list list \<Rightarrow> 'v frame" where
  "named_frame infer names data =
     \<lparr>frame_index = [0..<length data],
      frame_cols = map (\<lambda>j. (StrLabel (names ! j), infer (column_of j data)))
                     [0..<length names]\<rparr>"

text \<open>
  Modelled from the spec: \<^verbatim>\<open>pd.read_csv(path, header=header)\<close>.  A failure to open, read
  or tokenise the file is raised as it is.  Rows of which none is longer than the first
  are framed as above, with \<^verbatim>\<open>header=n\<close> taking row \<open>n\<close> for the names (the source
  passes \<open>0\<close> only) when these names are non-empty and distinct.  Everything else is
  left to the world.
\<close>

definition pd_read_csv :: "'v world \<Rightarrow> string \<Rightarrow> nat option \<Rightarrow> exn + 'v frame" where
  "pd_read_csv w path header =
     (case read_rows w path of
        Inl e \<Rightarrow> Inl e
      | Inr rows \<Rightarrow>
          (case header of
             None \<Rightarrow>
               (case rows of
                  [] \<Rightarrow> read_irregular w path header
                | first # rest \<Rightarrow>
                    if \<forall>r \<in> set rest. length r \<le> length first
                    then Inr (positional_frame (infer_column w) rows)
                    else read_irregular w path header)
           | Some n \<Rightarrow>
               (case drop n rows of
                  [] \<Rightarrow> read_irregular w path header
                | names # data \<Rightarrow>
                    if distinct names \<and> [] \<notin> set names
                       \<and> (\<forall>r \<in> set data. length r \<le> length names)
                    then Inr (named_frame (infer_column w) names data)
                    else read_irregular w path header)))"

text \<open>\<^verbatim>\<open>df.columns\<close>, \<^verbatim>\<open>len(df)\<close> and \<^verbatim>\<open>df.shape\<close>.\<close>

definition columns :: "'v frame \<Rightarrow> label list" where
  "columns df = map fst (frame_cols df)"

definition nrows :: "'v frame \<Rightarrow> nat" where
  "nrows df = length (frame_index df)"

definition shape :: "'v frame \<Rightarrow> nat \<times> nat" where
  "shape df = (length (frame_index df), length (frame_cols df))"

text \<open>
  \<^verbatim>\<open>df.drop(columns=labels)\<close>: a \<^verbatim>\<open>KeyError\<close> when a label is not a column (it names the
  labels not found when the column labels are unique, and all of \<^verbatim>\<open>labels\<close> otherwise);
  else the frame without every column whose label is in \<^verbatim>\<open>labels\<close>, the index and the
  order of the other columns kept.
\<close>

definition drop_columns :: "'v frame \<Rightarrow> label list \<Rightarrow> exn + 'v frame" where
  "drop_columns df labels =
     (let not_found = filter (\<lambda>l. l \<notin> set (columns df)) labels
      in if not_found \<noteq> [] then
           Inl (KeyError (Not_found_in_axis
                  (if distinct (columns df) then not_found else labels)))
         else Inr (df\<lparr>frame_cols := filter (\<lambda>c. fst c \<notin> set labels) (frame_cols df)\<rparr>))"

text \<open>
  \<^verbatim>\<open>df[[k1, k2]]\<close>: a \<^verbatim>\<open>KeyError\<close> when a key is not a column; else, key by key, the columns
  with that label, over the same index.
\<close>

definition getitem_list :: "'v frame \<Rightarrow> label list \<Rightarrow> exn + 'v frame" where
  "getitem_list df keys =
     (let not_found = filter (\<lambda>k. k \<notin> set (columns df)) keys
      in if not_found \<noteq> [] then Inl (KeyError (Not_in_index not_found))
         else Inr (df\<lparr>frame_cols :=
                concat (map (\<lambda>k. filter (\<lambda>c. fst c = k) (frame_cols df)) keys)\<rparr>))"

text \<open>
  \<^verbatim>\<open>df[k]\<close>: a \<^verbatim>\<open>KeyError\<close> when \<^verbatim>\<open>k\<close> is not a column, the column as a \<^verbatim>\<open>Series\<close> when one
  column has that label, and a frame of the columns with that label when several have.
\<close>

definition getitem :: "'v frame \<Rightarrow> label \<Rightarrow> exn + 'v target" where
  "getitem df k =
     (case filter (\<lambda>c. fst c = k) (frame_cols df) of
        [] \<Rightarrow> Inl (KeyError (Key_missing k))
      | [c] \<Rightarrow> Inr (TargetSeries
                 \<lparr>series_index = frame_index df, series_name = k, series_values = snd c\<rparr>)
      | cs \<Rightarrow> Inr (TargetFrame (df\<lparr>frame_cols := cs\<rparr>)))"

text \<open>\<^verbatim>\<open>getattr(target, 'shape', None)\<close>: \<^verbatim>\<open>(n,)\<close> for a series, \<^verbatim>\<open>(n, m)\<close> for a frame.\<close>

fun target_shape :: "'v target \<Rightarrow> nat list" where
  "target_shape (TargetSeries s) = [length (series_index s)]"
| "target_shape (TargetFrame df) = [length (frame_index df), length (frame_cols df)]"

section \<open>DataFetcher\<close>

text \<open>
  \<^verbatim>\<open>_read_csv_file\<close> (an Isabelle name cannot start with an underscore).  The events are
  appended to the trace in the order of the source: the log record of line 43, the call
  of line 44, then the record of line 45, 48 or 51.  Both handlers re-raise.
\<close>

definition header_arg :: "config \<Rightarrow> nat option" where
  "header_arg self = (if has_header self then Some 0 else None)"

definition read_csv_file :: "'v world \<Rightarrow> config \<Rightarrow> event list \<Rightarrow> event list \<times> (exn + 'v frame)" where
  "read_csv_file w self tr =
     (let header = header_arg self;
          tr1 = tr @ [Log INFO (Reading_CSV_file_from (csv_path self)),
                      Read_csv (csv_path self) header]
      in case pd_read_csv w (csv_path self) header of
           Inr df \<Rightarrow>
             (tr1 @ [Log INFO (Loaded_DataFrame (length (frame_index df)) (length (columns df)))],
              Inr df)
         | Inl FileNotFoundError \<Rightarrow>
             (tr1 @ [Log ERROR (CSV_file_not_found (csv_path self))], Inl FileNotFoundError)
         | Inl exc \<Rightarrow>
             (tr1 @ [Log ERROR (Unexpected_error_reading_CSV_file exc)], Inl exc))"

text \<open>Python's truth test of an \<^verbatim>\<open>Optional[str]\<close>: neither \<^verbatim>\<open>None\<close> nor the empty string.\<close>

fun truthy :: "string option \<Rightarrow> bool" where
  "truthy None = False"
| "truthy (Some s) = (s \<noteq> [])"

text \<open>Lines 79 to 81: \<^verbatim>\<open>[c for c in [target_name, id_column] if c and c not in df.columns]\<close>.\<close>

fun missing_of :: "'v frame \<Rightarrow> string option list \<Rightarrow> string list" where
  "missing_of df [] = []"
| "missing_of df (None # cs) = missing_of df cs"
| "missing_of df (Some c # cs) =
     (if c \<noteq> [] \<and> StrLabel c \<notin> set (columns df) then c # missing_of df cs
      else missing_of df cs)"

definition missing_columns :: "config \<Rightarrow> 'v frame \<Rightarrow> string list" where
  "missing_columns self df = missing_of df [target_name self, id_column self]"

text \<open>Lines 87 to 89: the target, and the identifier when it is set and is a column.\<close>

definition drop_cols :: "config \<Rightarrow> string \<Rightarrow> 'v frame \<Rightarrow> label list" where
  "drop_cols self t df =
     (case id_column self of
        Some i \<Rightarrow> if i \<noteq> [] \<and> StrLabel i \<in> set (columns df)
                  then [StrLabel t, StrLabel i] else [StrLabel t]
      | None \<Rightarrow> [StrLabel t])"

text \<open>Lines 94 to 97; \<^verbatim>\<open>.copy()\<close> is the identity on values.\<close>

definition build_target :: "config \<Rightarrow> string \<Rightarrow> bool \<Rightarrow> 'v frame \<Rightarrow> exn + 'v target" where
  "build_target self t include_id_in_target df =
     (case id_column self of
        Some i \<Rightarrow>
          if i \<noteq> [] \<and> include_id_in_target
          then (case getitem_list df [StrLabel i, StrLabel t] of
                  Inl e \<Rightarrow> Inl e
                | Inr both \<Rightarrow> Inr (TargetFrame both))
          else getitem df (StrLabel t)
      | None \<Rightarrow> getitem df (StrLabel t))"

definition get_features_and_target ::
  "'v world \<Rightarrow> config \<Rightarrow> bool \<Rightarrow> event list \<Rightarrow> event list \<times> (exn + 'v frame \<times> 'v target)" where
  "get_features_and_target w self include_id_in_target tr =
     (case target_name self of
        None \<Rightarrow>
          (tr @ [Log ERROR Target_column_not_specified],
           Inl (ValueError ''target_column_name must be provided to split features/target.''))
      | Some t \<Rightarrow>
          (case read_csv_file w self tr of
             (tr1, Inl e) \<Rightarrow> (tr1, Inl e)
           | (tr1, Inr df) \<Rightarrow>
               (let missing = missing_columns self df
                in if missing \<noteq> [] then
                     (tr1 @ [Log ERROR (Missing_columns_in_CSV missing)],
                      Inl (KeyError (Columns_not_found missing (columns df))))
                   else
                     (case drop_columns df (drop_cols self t df) of
                        Inl e \<Rightarrow> (tr1, Inl e)
                      | Inr features \<Rightarrow>
                          (let tr2 = tr1 @ [Log INFO (Features_shape (shape features))]
                           in case build_target self t include_id_in_target df of
                                Inl e \<Rightarrow> (tr2, Inl e)
                              | Inr target \<Rightarrow>
                                  (tr2 @ [Log INFO (Target_shape (target_shape target))],
                                   Inr (features, target)))))))"

section \<open>Notions used to state the properties\<close>

text \<open>
  Row \<open>i\<close> of a frame: the labelled cell of every column at position \<open>i\<close>.  The index,
  the columns, the length (\<^verbatim>\<open>len(target)\<close>) and row \<open>i\<close> of the second result, which
  is a series or a frame.
\<close>

definition row_at :: "'v frame \<Rightarrow> nat \<Rightarrow> (label \<times> 'v) list" where
  "row_at df i = map (\<lambda>c. (fst c, snd c ! i)) (frame_cols df)"

fun target_index :: "'v target \<Rightarrow> nat list" where
  "target_index (TargetSeries s) = series_index s"
| "target_index (TargetFrame df) = frame_index df"

fun target_cols :: "'v target \<Rightarrow> (label \<times> 'v list) list" where
  "target_cols (TargetSeries s) = [(series_name s, series_values s)]"
| "target_cols (TargetFrame df) = frame_cols df"

definition target_nrows :: "'v target \<Rightarrow> nat" where
  "target_nrows y = length (target_index y)"

definition target_row_at :: "'v target \<Rightarrow> nat \<Rightarrow> (label \<times> 'v) list" where
  "target_row_at y i = map (\<lambda>c. (fst c, snd c ! i)) (target_cols y)"

text \<open>
  The labels that pandas assigns when it reads without a header row: the positions
  \<open>0, 1, \<dots>\<close> as integers.
\<close>

definition positional :: "'v frame \<Rightarrow> bool" where
  "positional df = (columns df = map IntLabel [0..<length (frame_cols df)])"

section \<open>Sample inputs\<close>

text \<open>
  A world with three files, whose values are kept as the texts of the fields.
  \<^verbatim>\<open>data.csv\<close> has a header row with the names id, amount and label and three rows
  of data; \<^verbatim>\<open>plain.csv\<close> has no header row, two columns and three rows; \<^verbatim>\<open>broken.csv\<close>
  exists and cannot be decoded.  No other path exists: opening \<^verbatim>\<open>data.csv/x.csv\<close>, a path
  below the regular file \<^verbatim>\<open>data.csv\<close>, raises \<^verbatim>\<open>NotADirectoryError\<close>, and opening any
  other path raises \<^verbatim>\<open>FileNotFoundError\<close>.  \<open>sample_frame\<close> and \<open>plain_frame\<close> are the
  tables of the first two files, read with and without a header row.
\<close>

definition sample_world :: "string world" where
  "sample_world =
     \<lparr>file_exists = (\<lambda>p. p \<in> set [''data.csv'', ''plain.csv'', ''broken.csv'']),
      read_rows = (\<lambda>p.
        if p = ''data.csv'' then
          Inr [[''id'', ''amount'', ''label''],
               [''101'', ''5'', ''0''], [''102'', ''70'', ''1''], [''103'', ''12'', ''0'']]
        else if p = ''plain.csv'' then
          Inr [[''5'', ''0''], [''70'', ''1''], [''12'', ''0'']]
        else if p = ''broken.csv'' then Inl (OtherError ''UnicodeDecodeError'')
        else if p = ''data.csv/x.csv'' then Inl (OtherError ''NotADirectoryError'')
        else Inl FileNotFoundError),
      infer_column = (\<lambda>texts. texts),
      read_irregular = (\<lambda>p h. Inl (OtherError ''ParserError''))\<rparr>"

definition sample_frame :: "string frame" where
  "sample_frame =
     \<lparr>frame_index = [0, 1, 2],
      frame_cols = [(StrLabel ''id'', [''101'', ''102'', ''103'']),
                    (StrLabel ''amount'', [''5'', ''70'', ''12'']),
                    (StrLabel ''label'', [''0'', ''1'', ''0''])]\<rparr>"

definition plain_frame :: "string frame" where
  "plain_frame =
     \<lparr>frame_index = [0, 1, 2],
      frame_cols = [(IntLabel 0, [''5'', ''70'', ''12'']), (IntLabel 1, [''0'', ''1'', ''0''])]\<rparr>"

definition sample_config :: config where
  "sample_config =
     \<lparr>csv_path = ''data.csv'', has_header = True,
      target_name = Some ''label'', id_column = Some ''id''\<rparr>"

section \<open>Loading\<close>

text \<open>The two sample files, read as the sample configurations read them.\<close>

lemma upt_3: "[0..<3] = [0, 1, 2]"
  by (simp add: upt_rec)

lemma upt_2: "[0..<2] = [0, 1]"
  by (simp add: upt_rec)

lemma sample_read_data: "pd_read_csv sample_world ''data.csv'' (Some 0) = Inr sample_frame"
  by (simp add: pd_read_csv_def sample_world_def named_frame_def sample_frame_def
      column_of_def field_at_def upt_3)

lemma sample_read_plain: "pd_read_csv sample_world ''plain.csv'' None = Inr plain_frame"
  by (simp add: pd_read_csv_def sample_world_def positional_frame_def plain_frame_def
      column_of_def field_at_def upt_3 upt_2)

text \<open>The result of \<^verbatim>\<open>_read_csv_file\<close> is the reader's, frame or exception, and the trace
  grows by the two log records around the one call of the reader.\<close>

lemma read_csv_file_result:
  "snd (read_csv_file w self tr) = pd_read_csv w (csv_path self) (header_arg self)"
  by (simp add: read_csv_file_def Let_def split: sum.splits exn.splits)

lemma read_csv_file_trace:
  "\<exists>m. fst (read_csv_file w self tr) =
     tr @ [Log INFO (Reading_CSV_file_from (csv_path self)),
           Read_csv (csv_path self) (header_arg self), Log (fst m) (snd m)]"
  by (auto simp add: read_csv_file_def Let_def split: sum.splits exn.splits)

text \<open>The header flag selects the mode of the reader: \<^verbatim>\<open>header=0\<close> when it is true,
  \<^verbatim>\<open>header=None\<close> when it is false.\<close>

lemma read_csv_file_header_mode:
  "has_header self \<Longrightarrow>
     snd (read_csv_file w self tr) = pd_read_csv w (csv_path self) (Some 0)"
  "\<not> has_header self \<Longrightarrow>
     snd (read_csv_file w self tr) = pd_read_csv w (csv_path self) None"
  by (simp_all add: read_csv_file_result header_arg_def)

text \<open>
  Claim C7, as amended.  The source does not test whether the file exists: it dispatches on
  the class of the exception that the reader raises.  When the reader raises
  \<^verbatim>\<open>FileNotFoundError\<close>, load logs that the file was not found and raises it again; when the
  reader raises any other exception, load logs an unexpected error and raises that
  exception again, unchanged.  In neither case does load return a default or a
  placeholder: a frame that load returns is the frame that the reader returned.
\<close>

theorem load_errors_propagate:
  "(\<forall>e. pd_read_csv w (csv_path self) (header_arg self) = Inl e \<longrightarrow>
        read_csv_file w self tr =
          (tr @ [Log INFO (Reading_CSV_file_from (csv_path self)),
                 Read_csv (csv_path self) (header_arg self),
                 Log ERROR (if e = FileNotFoundError then CSV_file_not_found (csv_path self)
                            else Unexpected_error_reading_CSV_file e)],
           Inl e))
   \<and> (\<forall>df. snd (read_csv_file w self tr) = Inr df \<longrightarrow>
          pd_read_csv w (csv_path self) (header_arg self) = Inr df)"
  by (auto simp add: read_csv_file_def Let_def split: sum.splits exn.splits)

theorem load_errors_propagate_witness:
  "read_csv_file sample_world (sample_config\<lparr>csv_path := ''missing.csv''\<rparr>) [] =
     ([Log INFO (Reading_CSV_file_from ''missing.csv''), Read_csv ''missing.csv'' (Some 0),
       Log ERROR (CSV_file_not_found ''missing.csv'')], Inl FileNotFoundError)
   \<and> read_csv_file sample_world (sample_config\<lparr>csv_path := ''broken.csv''\<rparr>) [] =
     ([Log INFO (Reading_CSV_file_from ''broken.csv''), Read_csv ''broken.csv'' (Some 0),
       Log ERROR (Unexpected_error_reading_CSV_file (OtherError ''UnicodeDecodeError''))],
      Inl (OtherError ''UnicodeDecodeError''))
   \<and> pd_read_csv sample_world ''data.csv'' (Some 0) = Inr sample_frame"
proof -
  let ?missing = "sample_config\<lparr>csv_path := ''missing.csv''\<rparr>"
  let ?broken = "sample_config\<lparr>csv_path := ''broken.csv''\<rparr>"
  have h: "header_arg ?missing = Some 0" "header_arg ?broken = Some 0"
    "header_arg sample_config = Some 0" "csv_path sample_config = ''data.csv''"
    by (simp_all add: header_arg_def sample_config_def)
  have a: "pd_read_csv sample_world (csv_path ?missing) (header_arg ?missing) =
             Inl FileNotFoundError"
    by (simp add: pd_read_csv_def sample_world_def)
  have b: "pd_read_csv sample_world (csv_path ?broken) (header_arg ?broken) =
             Inl (OtherError ''UnicodeDecodeError'')"
    by (simp add: pd_read_csv_def sample_world_def)
  have c: "snd (read_csv_file sample_world sample_config []) = Inr sample_frame"
    by (simp add: read_csv_file_result h sample_read_data)
  from load_errors_propagate [of sample_world ?missing "[]"] a
  have 1: "read_csv_file sample_world ?missing [] =
     ([Log INFO (Reading_CSV_file_from ''missing.csv''), Read_csv ''missing.csv'' (Some 0),
       Log ERROR (CSV_file_not_found ''missing.csv'')], Inl FileNotFoundError)"
    by (simp add: h)
  from load_errors_propagate [of sample_world ?broken "[]"] b
  have 2: "read_csv_file sample_world ?broken [] =
     ([Log INFO (Reading_CSV_file_from ''broken.csv''), Read_csv ''broken.csv'' (Some 0),
       Log ERROR (Unexpected_error_reading_CSV_file (OtherError ''UnicodeDecodeError''))],
      Inl (OtherError ''UnicodeDecodeError''))"
    by (simp add: h)
  from load_errors_propagate [of sample_world sample_config "[]"] c
  have 3: "pd_read_csv sample_world ''data.csv'' (Some 0) = Inr sample_frame"
    by (simp add: h)
  from 1 2 3 show ?thesis by simp
qed

text \<open>
  Claim C7 as stated gives a Not-Found error whenever the configured file does not exist.
  The path \<^verbatim>\<open>data.csv/x.csv\<close> names no file, and opening it raises \<^verbatim>\<open>NotADirectoryError\<close>,
  which is not a \<^verbatim>\<open>FileNotFoundError\<close>: load takes the handler of line 50 and reports an
  unexpected error.
\<close>

theorem missing_file_not_always_not_found:
  "\<not> file_exists sample_world ''data.csv/x.csv''
   \<and> read_csv_file sample_world (sample_config\<lparr>csv_path := ''data.csv/x.csv''\<rparr>) [] =
       ([Log INFO (Reading_CSV_file_from ''data.csv/x.csv''),
         Read_csv ''data.csv/x.csv'' (Some 0),
         Log ERROR (Unexpected_error_reading_CSV_file (OtherError ''NotADirectoryError''))],
        Inl (OtherError ''NotADirectoryError''))"
  by (simp add: read_csv_file_def pd_read_csv_def sample_world_def sample_config_def
      header_arg_def Let_def)



text \<open>
  Claim C9.  Load keeps no cache and no state.  Each call appends to the trace its own call
  of the reader, between its two log records, and returns what the reader makes of the
  file in the world of that call, whatever the trace holds and whatever an earlier call
  returned.  So when the file is unchanged between two calls (the second world has the
  same rows at the path, and the same parser), the second call reads the file again and
  returns the same table or raises the same exception as the first.
\<close>

theorem load_twice_same_table:
  assumes "read_csv_file w1 self tr = (tr1, r1)"
    and "read_csv_file w2 self tr1 = (tr2, r2)"
  shows "r1 = pd_read_csv w1 (csv_path self) (header_arg self)
       \<and> r2 = pd_read_csv w2 (csv_path self) (header_arg self)
       \<and> (\<exists>m1 m2. tr2 =
             tr @ [Log INFO (Reading_CSV_file_from (csv_path self)),
                   Read_csv (csv_path self) (header_arg self), m1,
                   Log INFO (Reading_CSV_file_from (csv_path self)),
                   Read_csv (csv_path self) (header_arg self), m2])
       \<and> (read_rows w2 (csv_path self) = read_rows w1 (csv_path self)
            \<and> infer_column w2 = infer_column w1
            \<and> read_irregular w2 = read_irregular w1 \<longrightarrow> r2 = r1)"
proof -
  from assms(1) read_csv_file_result [of w1 self tr]
  have 1: "r1 = pd_read_csv w1 (csv_path self) (header_arg self)" by simp
  from assms(2) read_csv_file_result [of w2 self tr1]
  have 2: "r2 = pd_read_csv w2 (csv_path self) (header_arg self)" by simp
  from assms(1) read_csv_file_trace [of w1 self tr] obtain m1 where
    t1: "tr1 = tr @ [Log INFO (Reading_CSV_file_from (csv_path self)),
                     Read_csv (csv_path self) (header_arg self), Log (fst m1) (snd m1)]"
    by auto
  from assms(2) read_csv_file_trace [of w2 self tr1] obtain m2 where
    t2: "tr2 = tr1 @ [Log INFO (Reading_CSV_file_from (csv_path self)),
                      Read_csv (csv_path self) (header_arg self), Log (fst m2) (snd m2)]"
    by auto
  from t1 t2 have 3: "\<exists>m1 m2. tr2 =
             tr @ [Log INFO (Reading_CSV_file_from (csv_path self)),
                   Read_csv (csv_path self) (header_arg self), m1,
                   Log INFO (Reading_CSV_file_from (csv_path self)),
                   Read_csv (csv_path self) (header_arg self), m2]"
    by simp
  have 4: "read_rows w2 (csv_path self) = read_rows w1 (csv_path self)
            \<and> infer_column w2 = infer_column w1
            \<and> read_irregular w2 = read_irregular w1 \<longrightarrow> r2 = r1"
  proof (intro impI, elim conjE)
    assume same: "read_rows w2 (csv_path self) = read_rows w1 (csv_path self)"
      "infer_column w2 = infer_column w1" "read_irregular w2 = read_irregular w1"
    show "r2 = r1"
      unfolding 1 2 pd_read_csv_def same by (rule refl)
  qed
  from 1 2 3 4 show ?thesis by blast
qed

theorem load_twice_same_table_witness:
  "\<exists>tr1 tr2. read_csv_file sample_world sample_config [] = (tr1, Inr sample_frame)
     \<and> read_csv_file sample_world sample_config tr1 = (tr2, Inr sample_frame)
     \<and> tr2 = [Log INFO (Reading_CSV_file_from ''data.csv''), Read_csv ''data.csv'' (Some 0),
              Log INFO (Loaded_DataFrame 3 3),
              Log INFO (Reading_CSV_file_from ''data.csv''), Read_csv ''data.csv'' (Some 0),
              Log INFO (Loaded_DataFrame 3 3)]"
proof -
  have h: "header_arg sample_config = Some 0" "csv_path sample_config = ''data.csv''"
    by (simp_all add: header_arg_def sample_config_def)
  have n: "length (frame_index sample_frame) = 3" "length (columns sample_frame) = 3"
    by (simp_all add: sample_frame_def columns_def)
  define tr1 where "tr1 = fst (read_csv_file sample_world sample_config [])"
  define tr2 where "tr2 = fst (read_csv_file sample_world sample_config tr1)"
  define r1 where "r1 = snd (read_csv_file sample_world sample_config [])"
  define r2 where "r2 = snd (read_csv_file sample_world sample_config tr1)"
  have a: "read_csv_file sample_world sample_config [] = (tr1, r1)"
    by (simp add: tr1_def r1_def)
  have b: "read_csv_file sample_world sample_config tr1 = (tr2, r2)"
    by (simp add: tr2_def r2_def)
  from load_twice_same_table [OF a b]
  have r: "r1 = Inr sample_frame" "r2 = Inr sample_frame"
    by (simp_all add: h sample_read_data)
  have t1: "tr1 = [Log INFO (Reading_CSV_file_from ''data.csv''), Read_csv ''data.csv'' (Some 0),
              Log INFO (Loaded_DataFrame 3 3)]"
    by (simp add: tr1_def read_csv_file_def h sample_read_data n Let_def)
  have t2: "tr2 = tr1 @ [Log INFO (Reading_CSV_file_from ''data.csv''),
              Read_csv ''data.csv'' (Some 0), Log INFO (Loaded_DataFrame 3 3)]"
    by (simp add: tr2_def read_csv_file_def h sample_read_data n Let_def)
  from a b r t1 t2 show ?thesis by simp
qed

section \<open>Splitting\<close>

text \<open>A split that returns has passed every step: a target name is set, the file was
  loaded, no configured column is missing, and both parts were built from the loaded frame.\<close>

lemma split_success:
  assumes "get_features_and_target w self inc tr = (tr', Inr (X, y))"
  shows "\<exists>t df. target_name self = Some t
           \<and> pd_read_csv w (csv_path self) (header_arg self) = Inr df
           \<and> missing_columns self df = []
           \<and> drop_columns df (drop_cols self t df) = Inr X
           \<and> build_target self t inc df = Inr y"
proof (cases "target_name self")
  case None
  with assms show ?thesis by (simp add: get_features_and_target_def)
next
  case (Some t)
  obtain tr1 r where r: "read_csv_file w self tr = (tr1, r)"
    by (cases "read_csv_file w self tr")
  then have res: "r = pd_read_csv w (csv_path self) (header_arg self)"
    using read_csv_file_result [of w self tr] by simp
  show ?thesis
  proof (cases r)
    case (Inl e)
    with assms Some r show ?thesis by (simp add: get_features_and_target_def)
  next
    case (Inr df)
    with assms Some r res show ?thesis
      by (auto simp add: get_features_and_target_def Let_def split: if_splits sum.splits)
  qed
qed

lemma missing_columns_set:
  "set (missing_columns self df) =
     {c. (target_name self = Some c \<or> id_column self = Some c) \<and> c \<noteq> []
         \<and> StrLabel c \<notin> set (columns df)}"
  by (cases "target_name self"; cases "id_column self")
     (auto simp add: missing_columns_def)

lemma split_missing:
  assumes "target_name self = Some t"
    and "pd_read_csv w (csv_path self) (header_arg self) = Inr df"
    and "missing_columns self df \<noteq> []"
  shows "snd (get_features_and_target w self inc tr) =
           Inl (KeyError (Columns_not_found (missing_columns self df) (columns df)))"
proof -
  obtain tr1 r where r: "read_csv_file w self tr = (tr1, r)"
    by (cases "read_csv_file w self tr")
  then have "r = Inr df"
    using read_csv_file_result [of w self tr] assms(2) by simp
  with r assms(1,3) show ?thesis
    by (simp add: get_features_and_target_def Let_def)
qed

text \<open>
  Claim C5, as amended.  When no target column name is configured (\<^verbatim>\<open>None\<close>), split logs
  the error and raises \<^verbatim>\<open>ValueError\<close> in every world, and the trace gains no call of the
  reader: the failure comes before any file access.
\<close>

theorem no_target_configuration_error:
  assumes "target_name self = None"
  shows "get_features_and_target w self inc tr =
           (tr @ [Log ERROR Target_column_not_specified],
            Inl (ValueError ''target_column_name must be provided to split features/target.''))
         \<and> (\<forall>p h. Read_csv p h \<in> set (fst (get_features_and_target w self inc tr))
                   \<longrightarrow> Read_csv p h \<in> set tr)"
  using assms by (simp add: get_features_and_target_def)

theorem no_target_configuration_error_witness:
  "get_features_and_target sample_world (sample_config\<lparr>target_name := None\<rparr>) True [] =
     ([Log ERROR Target_column_not_specified],
      Inl (ValueError ''target_column_name must be provided to split features/target.''))"
proof -
  have "target_name (sample_config\<lparr>target_name := None\<rparr>) = None" by simp
  from no_target_configuration_error [OF this, of sample_world True "[]"]
  show ?thesis by simp
qed

text \<open>
  Claim C5 as stated also covers the empty string.  The guard of line 72 tests
  \<^verbatim>\<open>is None\<close> only: with the target name \<^verbatim>\<open>""\<close> the file is read, the check of the
  columns skips the empty name, and \<^verbatim>\<open>df.drop\<close> raises a \<^verbatim>\<open>KeyError\<close>.
\<close>

theorem empty_target_reads_file:
  "\<not> truthy (target_name (sample_config\<lparr>target_name := Some ''''\<rparr>))
   \<and> get_features_and_target sample_world (sample_config\<lparr>target_name := Some ''''\<rparr>) True [] =
       ([Log INFO (Reading_CSV_file_from ''data.csv''), Read_csv ''data.csv'' (Some 0),
         Log INFO (Loaded_DataFrame 3 3)],
        Inl (KeyError (Not_found_in_axis [StrLabel ''''])))"
  by (simp add: get_features_and_target_def read_csv_file_def sample_read_data
      sample_read_plain sample_config_def header_arg_def missing_columns_def
      columns_def sample_frame_def drop_columns_def drop_cols_def Let_def)

text \<open>
  Claim C4.  For a loaded table, when some configured non-empty column name (target or
  identifier) is not a column of the table, split logs the missing names and raises the
  \<^verbatim>\<open>KeyError\<close> of line 84, whose message holds a list with exactly the missing names and
  the list of all columns of the table; no features or target are returned.
\<close>

theorem missing_column_error:
  assumes "target_name self = Some t"
    and "pd_read_csv w (csv_path self) (header_arg self) = Inr df"
    and "{c. (target_name self = Some c \<or> id_column self = Some c) \<and> c \<noteq> []
             \<and> StrLabel c \<notin> set (columns df)} \<noteq> {}"
  shows "\<exists>missing. get_features_and_target w self inc tr =
             (fst (read_csv_file w self tr) @ [Log ERROR (Missing_columns_in_CSV missing)],
              Inl (KeyError (Columns_not_found missing (columns df))))
           \<and> set missing = {c. (target_name self = Some c \<or> id_column self = Some c)
                                \<and> c \<noteq> [] \<and> StrLabel c \<notin> set (columns df)}"
proof -
  from assms(3) have ne: "missing_columns self df \<noteq> []"
    unfolding missing_columns_set [symmetric] by simp
  obtain tr1 r where r: "read_csv_file w self tr = (tr1, r)"
    by (cases "read_csv_file w self tr")
  then have "r = Inr df"
    using read_csv_file_result [of w self tr] assms(2) by simp
  with r assms(1) ne have "get_features_and_target w self inc tr =
      (fst (read_csv_file w self tr) @ [Log ERROR (Missing_columns_in_CSV (missing_columns self df))],
       Inl (KeyError (Columns_not_found (missing_columns self df) (columns df))))"
    by (simp add: get_features_and_target_def Let_def)
  then show ?thesis
    using missing_columns_set by blast
qed

theorem missing_column_error_witness:
  "(\<exists>missing.
      get_features_and_target sample_world
        (sample_config\<lparr>target_name := Some ''fraud'', id_column := Some ''customer''\<rparr>) True [] =
        ([Log INFO (Reading_CSV_file_from ''data.csv''), Read_csv ''data.csv'' (Some 0),
          Log INFO (Loaded_DataFrame 3 3), Log ERROR (Missing_columns_in_CSV missing)],
         Inl (KeyError (Columns_not_found missing
                [StrLabel ''id'', StrLabel ''amount'', StrLabel ''label''])))
      \<and> set missing = {''fraud'', ''customer''})"
proof -
  let ?cfg = "sample_config\<lparr>target_name := Some ''fraud'', id_column := Some ''customer''\<rparr>"
  have t: "target_name ?cfg = Some ''fraud''" by simp
  have l: "pd_read_csv sample_world (csv_path ?cfg) (header_arg ?cfg) = Inr sample_frame"
    by (simp add: sample_read_data sample_read_plain sample_config_def header_arg_def)
  have s: "{c. (target_name ?cfg = Some c \<or> id_column ?cfg = Some c) \<and> c \<noteq> []
             \<and> StrLabel c \<notin> set (columns sample_frame)} = {''fraud'', ''customer''}"
    by (auto simp add: columns_def sample_frame_def)
  then have ne: "{c. (target_name ?cfg = Some c \<or> id_column ?cfg = Some c) \<and> c \<noteq> []
             \<and> StrLabel c \<notin> set (columns sample_frame)} \<noteq> {}" by simp
  have tr: "fst (read_csv_file sample_world ?cfg []) =
      [Log INFO (Reading_CSV_file_from ''data.csv''), Read_csv ''data.csv'' (Some 0),
       Log INFO (Loaded_DataFrame 3 3)]"
    by (simp add: read_csv_file_def sample_read_data sample_read_plain sample_config_def
        header_arg_def columns_def sample_frame_def Let_def)
  have c: "columns sample_frame = [StrLabel ''id'', StrLabel ''amount'', StrLabel ''label'']"
    by (simp add: columns_def sample_frame_def)
  from missing_column_error [OF t l ne, of True "[]"] obtain missing where
    m: "get_features_and_target sample_world ?cfg True [] =
          (fst (read_csv_file sample_world ?cfg []) @ [Log ERROR (Missing_columns_in_CSV missing)],
           Inl (KeyError (Columns_not_found missing (columns sample_frame))))"
    and sm: "set missing = {c. (target_name ?cfg = Some c \<or> id_column ?cfg = Some c) \<and> c \<noteq> []
             \<and> StrLabel c \<notin> set (columns sample_frame)}"
    by blast
  from sm have "set missing = {''fraud'', ''customer''}"
    unfolding s .
  with m show ?thesis
    unfolding tr c by (intro exI [of _ missing]) simp
qed

text \<open>
  Claim C6, as amended.  When a non-empty identifier name is configured, the identifier is
  not a column of the loaded table and the target is, split raises the \<^verbatim>\<open>KeyError\<close> of
  line 84 naming the identifier, whatever \<^verbatim>\<open>include_id_in_target\<close> is.
\<close>

theorem absent_identifier_error:
  assumes "target_name self = Some t"
    and "id_column self = Some i"
    and "i \<noteq> []"
    and "pd_read_csv w (csv_path self) (header_arg self) = Inr df"
    and "StrLabel t \<in> set (columns df)"
    and "StrLabel i \<notin> set (columns df)"
  shows "snd (get_features_and_target w self inc tr) =
           Inl (KeyError (Columns_not_found [i] (columns df)))"
proof -
  from assms(1,2,3,5,6) have m: "missing_columns self df = [i]"
    by (simp add: missing_columns_def)
  then have "missing_columns self df \<noteq> []" by simp
  from split_missing [OF assms(1) assms(4) this, of inc tr] m show ?thesis by simp
qed

theorem absent_identifier_error_witness:
  "snd (get_features_and_target sample_world (sample_config\<lparr>id_column := Some ''customer''\<rparr>)
          True []) =
     Inl (KeyError (Columns_not_found [''customer'']
            [StrLabel ''id'', StrLabel ''amount'', StrLabel ''label'']))"
proof -
  let ?cfg = "sample_config\<lparr>id_column := Some ''customer''\<rparr>"
  have t: "target_name ?cfg = Some ''label''" by (simp add: sample_config_def)
  have i: "id_column ?cfg = Some ''customer''" by simp
  have n: "''customer'' \<noteq> []" by simp
  have l: "pd_read_csv sample_world (csv_path ?cfg) (header_arg ?cfg) = Inr sample_frame"
    by (simp add: sample_read_data sample_read_plain sample_config_def header_arg_def)
  have p: "StrLabel ''label'' \<in> set (columns sample_frame)"
    by (simp add: columns_def sample_frame_def)
  have a: "StrLabel ''customer'' \<notin> set (columns sample_frame)"
    by (simp add: columns_def sample_frame_def)
  from absent_identifier_error [OF t i n l p a, of True "[]"] show ?thesis
    by (simp add: columns_def sample_frame_def)
qed

text \<open>
  Claim C6 as stated makes the absent identifier a no-op when \<^verbatim>\<open>include_id_in_target\<close>
  is false.  The check of lines 79 to 84 does not look at that option: the call below,
  with the option false, raises the same error.
\<close>

theorem absent_identifier_not_ignored:
  "id_column (sample_config\<lparr>id_column := Some ''customer''\<rparr>) = Some ''customer''
   \<and> StrLabel ''customer'' \<notin> set (columns sample_frame)
   \<and> StrLabel ''label'' \<in> set (columns sample_frame)
   \<and> get_features_and_target sample_world (sample_config\<lparr>id_column := Some ''customer''\<rparr>)
       False [] =
       ([Log INFO (Reading_CSV_file_from ''data.csv''), Read_csv ''data.csv'' (Some 0),
         Log INFO (Loaded_DataFrame 3 3), Log ERROR (Missing_columns_in_CSV [''customer''])],
        Inl (KeyError (Columns_not_found [''customer'']
               [StrLabel ''id'', StrLabel ''amount'', StrLabel ''label''])))"
  by (simp add: get_features_and_target_def read_csv_file_def sample_read_data
      sample_read_plain sample_config_def header_arg_def missing_columns_def
      columns_def sample_frame_def Let_def)

text \<open>
  Claim C10.  With the header flag false and a non-empty target name, split on a file
  that parses raises the \<^verbatim>\<open>KeyError\<close> of line 84 with the target name among the missing
  ones: the columns of a table read without a header are labelled by integer positions,
  and no string is one of them.
\<close>

theorem headerless_target_missing:
  assumes "\<not> has_header self"
    and "target_name self = Some t"
    and "t \<noteq> []"
    and "pd_read_csv w (csv_path self) None = Inr df"
    and "positional df"
  shows "\<exists>missing. snd (get_features_and_target w self inc tr) =
             Inl (KeyError (Columns_not_found missing (columns df)))
           \<and> t \<in> set missing"
proof -
  from assms(1) have h: "header_arg self = None" by (simp add: header_arg_def)
  from assms(5) have "StrLabel t \<notin> set (columns df)"
    by (auto simp add: positional_def)
  with assms(2,3) have "t \<in> set (missing_columns self df)"
    by (simp add: missing_columns_set)
  moreover from this have "missing_columns self df \<noteq> []" by auto
  from split_missing [OF assms(2) _ this, of w inc tr] assms(4) h
  have "snd (get_features_and_target w self inc tr) =
          Inl (KeyError (Columns_not_found (missing_columns self df) (columns df)))" by simp
  ultimately show ?thesis by blast
qed

theorem headerless_target_missing_witness:
  "positional plain_frame
   \<and> (\<exists>missing. snd (get_features_and_target sample_world
          (sample_config\<lparr>csv_path := ''plain.csv'', has_header := False\<rparr>) True []) =
        Inl (KeyError (Columns_not_found missing [IntLabel 0, IntLabel 1]))
        \<and> ''label'' \<in> set missing)"
proof -
  let ?cfg = "sample_config\<lparr>csv_path := ''plain.csv'', has_header := False\<rparr>"
  have a: "\<not> has_header ?cfg" by simp
  have b: "target_name ?cfg = Some ''label''" by (simp add: sample_config_def)
  have c: "''label'' \<noteq> []" by simp
  have d: "pd_read_csv sample_world (csv_path ?cfg) None = Inr plain_frame"
    by (simp add: sample_read_data sample_read_plain)
  have e: "positional plain_frame"
    by (simp add: positional_def columns_def plain_frame_def upt_rec)
  have f: "columns plain_frame = [IntLabel 0, IntLabel 1]"
    by (simp add: columns_def plain_frame_def)
  from headerless_target_missing [OF a b c d e, of True "[]"] e show ?thesis
    unfolding f by simp
qed

subsection \<open>What the two parts are made of\<close>

text \<open>
  A successful \<^verbatim>\<open>drop\<close> keeps the index and filters the columns; a successful lookup keeps
  the index and returns columns of the frame, whole.
\<close>

lemma drop_columns_Inr:
  assumes "drop_columns df ls = Inr X"
  shows "frame_index X = frame_index df"
    and "frame_cols X = filter (\<lambda>c. fst c \<notin> set ls) (frame_cols df)"
    and "set ls \<subseteq> set (columns df)"
  using assms by (auto simp add: drop_columns_def Let_def filter_empty_conv split: if_splits)

lemma getitem_Inr:
  assumes "getitem df k = Inr y"
  shows "target_index y = frame_index df"
    and "set (target_cols y) \<subseteq> set (frame_cols df)"
proof -
  let ?cs = "filter (\<lambda>c. fst c = k) (frame_cols df)"
  have sub: "set ?cs \<subseteq> set (frame_cols df)" by auto
  have k: "\<forall>c \<in> set ?cs. fst c = k" by simp
  show "target_index y = frame_index df"
    using assms by (auto simp add: getitem_def split: list.splits)
  show "set (target_cols y) \<subseteq> set (frame_cols df)"
  proof (cases ?cs)
    case Nil
    with assms show ?thesis by (simp add: getitem_def)
  next
    case (Cons c cs')
    show ?thesis
    proof (cases cs')
      case Nil
      with Cons have "?cs = [c]" by simp
      moreover from this sub k have "c \<in> set (frame_cols df)" "fst c = k"
        by (metis list.set_intros(1) subsetD, metis list.set_intros(1))
      ultimately show ?thesis using assms
        by (auto simp add: getitem_def)
    next
      case (Cons c2 cs2)
      with \<open>?cs = c # cs'\<close> have e: "?cs = c # c2 # cs2" by simp
      with assms have "y = TargetFrame (df\<lparr>frame_cols := ?cs\<rparr>)"
        by (simp add: getitem_def)
      with sub show ?thesis by simp
    qed
  qed
qed

lemma getitem_list_Inr:
  assumes "getitem_list df ks = Inr Y"
  shows "frame_index Y = frame_index df"
    and "set (frame_cols Y) \<subseteq> set (frame_cols df)"
  using assms by (auto simp add: getitem_list_def Let_def split: if_splits)

lemma build_target_cases:
  assumes "build_target self t inc df = Inr y"
  obtains (both) i Y where "id_column self = Some i" "i \<noteq> []" "inc"
      "getitem_list df [StrLabel i, StrLabel t] = Inr Y" "y = TargetFrame Y"
    | (single) "\<not> (truthy (id_column self) \<and> inc)" "getitem df (StrLabel t) = Inr y"
  using assms
  by (cases "id_column self") (auto simp add: build_target_def split: if_splits sum.splits)

lemma build_target_Inr:
  assumes "build_target self t inc df = Inr y"
  shows "target_index y = frame_index df"
    and "set (target_cols y) \<subseteq> set (frame_cols df)"
proof -
  show "target_index y = frame_index df"
    using assms by (cases rule: build_target_cases) (simp_all add: getitem_list_Inr(1) getitem_Inr(1))
  show "set (target_cols y) \<subseteq> set (frame_cols df)"
    using assms
  proof (cases rule: build_target_cases)
    case (both i Y)
    then show ?thesis using getitem_list_Inr(2) [of df _ Y] by simp
  next
    case single
    then show ?thesis using getitem_Inr(2) by blast
  qed
qed

text \<open>
  Claim C1.  When split returns, Features and Target have as many rows as the loaded
  table and carry its index, and row \<open>i\<close> of each consists of cells of row \<open>i\<close> of the
  loaded table: the rows stay aligned.
\<close>

theorem split_rows_aligned:
  assumes "get_features_and_target w self inc tr = (tr', Inr (X, y))"
  shows "\<exists>df. pd_read_csv w (csv_path self) (header_arg self) = Inr df
           \<and> nrows X = nrows df \<and> target_nrows y = nrows df
           \<and> frame_index X = frame_index df \<and> target_index y = frame_index df
           \<and> (\<forall>i<nrows df. set (row_at X i) \<subseteq> set (row_at df i)
                            \<and> set (target_row_at y i) \<subseteq> set (row_at df i))"
proof -
  from split_success [OF assms] obtain t df where
    l: "pd_read_csv w (csv_path self) (header_arg self) = Inr df"
    and d: "drop_columns df (drop_cols self t df) = Inr X"
    and b: "build_target self t inc df = Inr y" by blast
  have xi: "frame_index X = frame_index df" by (rule drop_columns_Inr(1) [OF d])
  have yi: "target_index y = frame_index df" by (rule build_target_Inr(1) [OF b])
  have xc: "set (frame_cols X) \<subseteq> set (frame_cols df)"
    using drop_columns_Inr(2) [OF d] by auto
  have yc: "set (target_cols y) \<subseteq> set (frame_cols df)" by (rule build_target_Inr(2) [OF b])
  have "set (row_at X i) \<subseteq> set (row_at df i)" for i
    using xc by (auto simp add: row_at_def)
  moreover have "set (target_row_at y i) \<subseteq> set (row_at df i)" for i
    using yc by (auto simp add: row_at_def target_row_at_def)
  ultimately show ?thesis
    using l xi yi by (auto simp add: nrows_def target_nrows_def)
qed

theorem split_rows_aligned_witness:
  "nrows sample_frame = 3
   \<and> (\<exists>tr' X y. get_features_and_target sample_world sample_config True [] = (tr', Inr (X, y))
         \<and> nrows X = 3 \<and> target_nrows y = 3
         \<and> frame_index X = [0, 1, 2] \<and> target_index y = [0, 1, 2]
         \<and> (\<forall>i<3. set (row_at X i) \<subseteq> set (row_at sample_frame i)
                     \<and> set (target_row_at y i) \<subseteq> set (row_at sample_frame i)))"
proof -
  obtain tr' X y where
    r: "get_features_and_target sample_world sample_config True [] = (tr', Inr (X, y))"
    by (simp add: get_features_and_target_def read_csv_file_def sample_read_data
        sample_read_plain sample_config_def header_arg_def missing_columns_def
        columns_def sample_frame_def drop_columns_def drop_cols_def build_target_def
        getitem_list_def Let_def)
  have l: "pd_read_csv sample_world (csv_path sample_config) (header_arg sample_config) =
             Inr sample_frame"
    by (simp add: sample_read_data sample_read_plain sample_config_def header_arg_def)
  have n: "nrows sample_frame = 3" "frame_index sample_frame = [0, 1, 2]"
    by (simp_all add: nrows_def sample_frame_def)
  from split_rows_aligned [OF r] l n r show ?thesis
    by auto
qed

subsection \<open>The dropped columns\<close>

lemma missing_columns_Nil:
  assumes "missing_columns self df = []" and "id_column self = Some i" and "i \<noteq> []"
  shows "StrLabel i \<in> set (columns df)"
  using assms by (cases "target_name self") (auto simp add: missing_columns_def split: if_splits)

lemma drop_cols_eq:
  assumes "missing_columns self df = []"
  shows "set (drop_cols self t df) =
           {l. l = StrLabel t \<or> (\<exists>i. id_column self = Some i \<and> i \<noteq> [] \<and> l = StrLabel i)}"
proof (cases "id_column self")
  case None
  then show ?thesis by (auto simp add: drop_cols_def)
next
  case (Some i)
  show ?thesis
  proof (cases "i = []")
    case True
    with Some show ?thesis by (auto simp add: drop_cols_def)
  next
    case False
    with Some assms have "StrLabel i \<in> set (columns df)" by (simp add: missing_columns_Nil)
    with Some False show ?thesis by (auto simp add: drop_cols_def)
  qed
qed

text \<open>
  Claim C2.  When split returns, the target name is not among the column names of
  Features, nor is the identifier name when one is configured (non-empty), and the
  column names of Features are those of the loaded table without these two, in the
  order of the loaded table.
\<close>

theorem split_features_columns:
  assumes "get_features_and_target w self inc tr = (tr', Inr (X, y))"
  shows "\<exists>t df. target_name self = Some t
           \<and> pd_read_csv w (csv_path self) (header_arg self) = Inr df
           \<and> StrLabel t \<notin> set (columns X)
           \<and> (\<forall>i. id_column self = Some i \<and> i \<noteq> [] \<longrightarrow> StrLabel i \<notin> set (columns X))
           \<and> columns X =
               filter (\<lambda>l. l \<noteq> StrLabel t
                            \<and> (\<forall>i. id_column self = Some i \<and> i \<noteq> [] \<longrightarrow> l \<noteq> StrLabel i))
                 (columns df)"
proof -
  from split_success [OF assms] obtain t df where
    t: "target_name self = Some t"
    and l: "pd_read_csv w (csv_path self) (header_arg self) = Inr df"
    and m: "missing_columns self df = []"
    and d: "drop_columns df (drop_cols self t df) = Inr X" by blast
  let ?keep = "\<lambda>l. l \<noteq> StrLabel t \<and> (\<forall>i. id_column self = Some i \<and> i \<noteq> [] \<longrightarrow> l \<noteq> StrLabel i)"
  have k: "(l \<notin> set (drop_cols self t df)) = ?keep l" for l
    unfolding drop_cols_eq [OF m] by auto
  have "columns X = filter (\<lambda>l. l \<notin> set (drop_cols self t df)) (columns df)"
    unfolding columns_def drop_columns_Inr(2) [OF d] by (simp add: filter_map comp_def)
  then have c: "columns X = filter ?keep (columns df)"
    unfolding k .
  then have "StrLabel t \<notin> set (columns X)"
    and "\<forall>i. id_column self = Some i \<and> i \<noteq> [] \<longrightarrow> StrLabel i \<notin> set (columns X)"
    by auto
  with t l c show ?thesis by blast
qed

theorem split_features_columns_witness:
  "\<exists>tr' X y. get_features_and_target sample_world sample_config True [] = (tr', Inr (X, y))
     \<and> StrLabel ''label'' \<notin> set (columns X) \<and> StrLabel ''id'' \<notin> set (columns X)
     \<and> columns X = [StrLabel ''amount'']"
proof -
  obtain tr' X y where
    r: "get_features_and_target sample_world sample_config True [] = (tr', Inr (X, y))"
    by (simp add: get_features_and_target_def read_csv_file_def sample_read_data
        sample_read_plain sample_config_def header_arg_def missing_columns_def
        columns_def sample_frame_def drop_columns_def drop_cols_def build_target_def
        getitem_list_def Let_def)
  have l: "pd_read_csv sample_world (csv_path sample_config) (header_arg sample_config) =
             Inr sample_frame"
    by (simp add: sample_read_data sample_read_plain sample_config_def header_arg_def)
  have c: "target_name sample_config = Some ''label''" "id_column sample_config = Some ''id''"
    "columns sample_frame = [StrLabel ''id'', StrLabel ''amount'', StrLabel ''label'']"
    by (simp_all add: sample_config_def columns_def sample_frame_def)
  from split_features_columns [OF r] l c have "columns X = [StrLabel ''amount'']"
    by auto
  with r show ?thesis by auto
qed

subsection \<open>The target\<close>

text \<open>When the labels are unique, the columns with a given label are the one column that
  \<open>map_of\<close> finds.\<close>

lemma filter_unique_label:
  assumes "distinct (map fst cs)" and "k \<in> set (map fst cs)"
  shows "\<exists>v. map_of cs k = Some v \<and> filter (\<lambda>c. fst c = k) cs = [(k, v)]"
  using assms
proof (induction cs)
  case Nil
  then show ?case by simp
next
  case (Cons c cs)
  show ?case
  proof (cases "fst c = k")
    case True
    from Cons.prems(1) have "fst c \<notin> fst ` set cs" by simp
    with True have "\<forall>x\<in>set cs. fst x \<noteq> k" by blast
    then have "filter (\<lambda>c. fst c = k) cs = []"
      by (simp add: filter_empty_conv)
    with True show ?thesis by (cases c) auto
  next
    case False
    with Cons show ?thesis by (cases c) auto
  qed
qed

lemma frame_update_cols:
  "(df :: 'v frame)\<lparr>frame_cols := cs\<rparr> = \<lparr>frame_index = frame_index df, frame_cols = cs\<rparr>"
  by (cases df) simp

text \<open>
  Claim C3.  Let the loaded table have unique column labels, as every table that
  \<^verbatim>\<open>read_csv\<close> returns has.  When split returns, and an identifier is configured
  (non-empty) and \<^verbatim>\<open>include_id_in_target\<close> is true, Target is the frame over the index of
  the table whose two columns are the identifier column and then the target column of the
  table; otherwise Target is the series of the target column over that index.
\<close>

theorem split_target_construction:
  assumes "get_features_and_target w self inc tr = (tr', Inr (X, y))"
    and "pd_read_csv w (csv_path self) (header_arg self) = Inr df"
    and "distinct (columns df)"
  shows "\<exists>t vt. target_name self = Some t \<and> map_of (frame_cols df) (StrLabel t) = Some vt
           \<and> (if truthy (id_column self) \<and> inc
              then \<exists>i vi. id_column self = Some i
                     \<and> map_of (frame_cols df) (StrLabel i) = Some vi
                     \<and> y = TargetFrame \<lparr>frame_index = frame_index df,
                                        frame_cols = [(StrLabel i, vi), (StrLabel t, vt)]\<rparr>
              else y = TargetSeries \<lparr>series_index = frame_index df,
                                     series_name = StrLabel t, series_values = vt\<rparr>)"
proof -
  from split_success [OF assms(1)] assms(2) obtain t where
    t: "target_name self = Some t"
    and m: "missing_columns self df = []"
    and d: "drop_columns df (drop_cols self t df) = Inr X"
    and b: "build_target self t inc df = Inr y" by auto
  have "StrLabel t \<in> set (drop_cols self t df)"
    by (simp add: drop_cols_def split: option.splits)
  with drop_columns_Inr(3) [OF d] have "StrLabel t \<in> set (map fst (frame_cols df))"
    by (auto simp add: columns_def)
  with assms(3) obtain vt where
    vt: "map_of (frame_cols df) (StrLabel t) = Some vt"
    and ft: "filter (\<lambda>c. fst c = StrLabel t) (frame_cols df) = [(StrLabel t, vt)]"
    using filter_unique_label [of "frame_cols df" "StrLabel t"] by (auto simp add: columns_def)
  from b show ?thesis
  proof (cases rule: build_target_cases)
    case (both i Y)
    from m both(1,2) have "StrLabel i \<in> set (map fst (frame_cols df))"
      using missing_columns_Nil [of self df i] by (simp add: columns_def)
    with assms(3) obtain vi where
      vi: "map_of (frame_cols df) (StrLabel i) = Some vi"
      and fi: "filter (\<lambda>c. fst c = StrLabel i) (frame_cols df) = [(StrLabel i, vi)]"
      using filter_unique_label [of "frame_cols df" "StrLabel i"] by (auto simp add: columns_def)
    from both(4) fi ft have "Y = \<lparr>frame_index = frame_index df,
        frame_cols = [(StrLabel i, vi), (StrLabel t, vt)]\<rparr>"
      by (auto simp add: getitem_list_def Let_def frame_update_cols split: if_splits)
    with both t vt vi show ?thesis by simp
  next
    case single
    from single(2) ft have "y = TargetSeries \<lparr>series_index = frame_index df,
        series_name = StrLabel t, series_values = vt\<rparr>"
      by (simp add: getitem_def)
    with single(1) t vt show ?thesis by auto
  qed
qed

theorem split_target_construction_witness:
  "(\<exists>tr' X. get_features_and_target sample_world sample_config True [] =
      (tr', Inr (X, TargetFrame \<lparr>frame_index = [0, 1, 2],
         frame_cols = [(StrLabel ''id'', [''101'', ''102'', ''103'']), (StrLabel ''label'', [''0'', ''1'', ''0''])]\<rparr>)))
   \<and> (\<exists>tr' X. get_features_and_target sample_world sample_config False [] =
      (tr', Inr (X, TargetSeries \<lparr>series_index = [0, 1, 2],
         series_name = StrLabel ''label'', series_values = [''0'', ''1'', ''0'']\<rparr>)))"
proof -
  obtain tr1 X1 y1 where
    r1: "get_features_and_target sample_world sample_config True [] = (tr1, Inr (X1, y1))"
    by (simp add: get_features_and_target_def read_csv_file_def sample_read_data
        sample_read_plain sample_config_def header_arg_def missing_columns_def
        columns_def sample_frame_def drop_columns_def drop_cols_def build_target_def
        getitem_list_def Let_def)
  obtain tr2 X2 y2 where
    r2: "get_features_and_target sample_world sample_config False [] = (tr2, Inr (X2, y2))"
    by (simp add: get_features_and_target_def read_csv_file_def sample_read_data
        sample_read_plain sample_config_def header_arg_def missing_columns_def
        columns_def sample_frame_def drop_columns_def drop_cols_def build_target_def
        getitem_def Let_def)
  have l: "pd_read_csv sample_world (csv_path sample_config) (header_arg sample_config) =
             Inr sample_frame"
    by (simp add: sample_read_data sample_read_plain sample_config_def header_arg_def)
  have dc: "distinct (columns sample_frame)"
    by (simp add: columns_def sample_frame_def)
  have c: "target_name sample_config = Some ''label''" "id_column sample_config = Some ''id''"
    "frame_index sample_frame = [0, 1, 2]"
    "map_of (frame_cols sample_frame) (StrLabel ''label'') = Some [''0'', ''1'', ''0'']"
    "map_of (frame_cols sample_frame) (StrLabel ''id'') = Some [''101'', ''102'', ''103'']"
    by (simp_all add: sample_config_def sample_frame_def)
  from split_target_construction [OF r1 l dc] c
  have "y1 = TargetFrame \<lparr>frame_index = [0, 1, 2],
         frame_cols = [(StrLabel ''id'', [''101'', ''102'', ''103'']), (StrLabel ''label'', [''0'', ''1'', ''0''])]\<rparr>"
    by auto
  moreover from split_target_construction [OF r2 l dc] c
  have "y2 = TargetSeries \<lparr>series_index = [0, 1, 2],
         series_name = StrLabel ''label'', series_values = [''0'', ''1'', ''0'']\<rparr>"
    by auto
  ultimately show ?thesis using r1 r2 by auto
qed

end
